theory Spec2Isabelle
  imports Main
begin

section \<open>The CodeBuild trigger: a CloudFormation custom resource handler\<close>

text \<open>
  The program is the inline Python of the Lambda function \<^verbatim>\<open>CodeBuildTriggerFunction\<close>
  in the quick-start CloudFormation template: \<^verbatim>\<open>lambda_handler\<close>,
  \<^verbatim>\<open>get_cfn_env_var_overrides\<close>, \<^verbatim>\<open>handle_create\<close>, \<^verbatim>\<open>handle_delete\<close> and
  \<^verbatim>\<open>handle_update\<close>. It receives a lifecycle event (a JSON object), may start a
  CodeBuild build through \<^verbatim>\<open>codebuild.start_build\<close> and may report to CloudFormation
  through \<^verbatim>\<open>cfnresponse.send\<close>.
\<close>

subsection \<open>JSON values as Python sees them\<close>

text \<open>
  The event is what the Lambda runtime parsed from JSON, so every value is \<^verbatim>\<open>None\<close>,
  a \<^verbatim>\<open>bool\<close>, a number, a \<^verbatim>\<open>str\<close>, a \<^verbatim>\<open>list\<close> or a \<^verbatim>\<open>dict\<close> with string keys.
  Numbers are integers here. A dict is an association list read with \<open>map_of\<close>: the
  first binding of a key is the dict's entry for it.
\<close>

datatype json =
    JNull
  | JBool bool
  | JInt int
  | JStr string
  | JArr "json list"
  | JObj "(string \<times> json) list"

type_synonym dict = "(string \<times> json) list"

text \<open>Python's \<^verbatim>\<open>bool(v)\<close>, which \<^verbatim>\<open>if v:\<close> and \<^verbatim>\<open>not v\<close> apply.\<close>

fun truthy :: "json \<Rightarrow> bool" where
  "truthy JNull = False"
| "truthy (JBool b) = b"
| "truthy (JInt i) = (i \<noteq> 0)"
| "truthy (JStr s) = (s \<noteq> [])"
| "truthy (JArr xs) = (xs \<noteq> [])"
| "truthy (JObj kvs) = (kvs \<noteq> [])"

fun type_name :: "json \<Rightarrow> string" where
  "type_name JNull = ''NoneType''"
| "type_name (JBool b) = ''bool''"
| "type_name (JInt i) = ''int''"
| "type_name (JStr s) = ''str''"
| "type_name (JArr xs) = ''list''"
| "type_name (JObj kvs) = ''dict''"

subsection \<open>Exceptions\<close>

text \<open>
  \<open>KeyError k\<close> is raised by \<^verbatim>\<open>d[k]\<close> on a dict without \<open>k\<close>; \<open>AttributeError t\<close> by
  \<^verbatim>\<open>v.get(...)\<close> on a value of type \<open>t\<close> that is no dict; \<open>TypeError t\<close> by \<^verbatim>\<open>v[k]\<close>
  on such a value; \<open>ServiceFault msg\<close> is whatever \<^verbatim>\<open>codebuild.start_build\<close> raises,
  with its description.
\<close>

datatype exn =
    KeyError string
  | AttributeError string
  | TypeError string
  | ServiceFault string

definition quote :: char where
  "quote = CHR 0x27"

text \<open>Python's \<^verbatim>\<open>str(e)\<close> (Python 3.10, the function's runtime).\<close>

fun str_exn :: "exn \<Rightarrow> string" where
  "str_exn (KeyError k) = quote # k @ [quote]"
| "str_exn (AttributeError t) =
     quote # t @ quote # '' object has no attribute '' @ quote # ''get'' @ [quote]"
| "str_exn (TypeError t) =
     (if t = ''str'' then ''string indices must be integers''
      else if t = ''list'' then ''list indices must be integers or slices, not str''
      else quote # t @ quote # '' object is not subscriptable'')"
| "str_exn (ServiceFault msg) = msg"

text \<open>Sequencing of computations that may raise: the first exception wins.\<close>

fun and_then :: "exn + 'a \<Rightarrow> ('a \<Rightarrow> exn + 'b) \<Rightarrow> exn + 'b" where
  "and_then (Inl e) f = Inl e"
| "and_then (Inr x) f = f x"

subsection \<open>Dict access\<close>

text \<open>\<^verbatim>\<open>d.get(k, default)\<close> and \<^verbatim>\<open>d[k]\<close> on a dict.\<close>

definition dict_get :: "dict \<Rightarrow> string \<Rightarrow> json \<Rightarrow> json" where
  "dict_get d k dflt = (case map_of d k of None \<Rightarrow> dflt | Some v \<Rightarrow> v)"

definition dict_item :: "dict \<Rightarrow> string \<Rightarrow> exn + json" where
  "dict_item d k = (case map_of d k of None \<Rightarrow> Inl (KeyError k) | Some v \<Rightarrow> Inr v)"

text \<open>The same two operations on an arbitrary value, which need not be a dict.\<close>

fun py_get :: "json \<Rightarrow> string \<Rightarrow> json \<Rightarrow> exn + json" where
  "py_get (JObj d) k dflt = Inr (dict_get d k dflt)"
| "py_get v k dflt = Inl (AttributeError (type_name v))"

fun py_item :: "json \<Rightarrow> string \<Rightarrow> exn + json" where
  "py_item (JObj d) k = dict_item d k"
| "py_item v k = Inl (TypeError (type_name v))"

subsection \<open>Formatting\<close>

text \<open>Decimal digits of a Python int, as an f-string prints it.\<close>

fun str_nat :: "nat \<Rightarrow> string" where
  "str_nat n =
     (if n < 10 then [''0123456789'' ! n]
      else str_nat (n div 10) @ [''0123456789'' ! (n mod 10)])"

declare str_nat.simps [simp del]

definition str_int :: "int \<Rightarrow> string" where
  "str_int i = (if i < 0 then CHR ''-'' # str_nat (nat (- i)) else str_nat (nat i))"

text \<open>
  \<^verbatim>\<open>f"{v}"\<close>: a string prints as itself, the scalars as Python names them; the text
  of a list or dict is Python's \<^verbatim>\<open>repr\<close>, taken as the parameter \<open>repr\<close>.
\<close>

fun py_str :: "(json \<Rightarrow> string) \<Rightarrow> json \<Rightarrow> string" where
  "py_str repr (JStr s) = s"
| "py_str repr JNull = ''None''"
| "py_str repr (JBool b) = (if b then ''True'' else ''False'')"
| "py_str repr (JInt i) = str_int i"
| "py_str repr v = repr v"

subsection \<open>The two collaborators and the trace of calls to them\<close>

record env_var =
  ev_name :: string
  ev_type :: string
  ev_value :: json

text \<open>What \<^verbatim>\<open>start_build\<close> returns under \<^verbatim>\<open>result["build"]\<close>, as far as the handler reads it.\<close>

record build =
  arn :: string
  buildNumber :: int

datatype status = SUCCESS | FAILED

text \<open>
  The arguments of one \<^verbatim>\<open>cfnresponse.send(event, context, status, responseData,
  physicalResourceId=...)\<close> call, the event and context apart (they are the invocation's
  own). \<open>physicalResourceId\<close> is \<open>None\<close> where the call does not pass it.
\<close>

record report =
  status :: status
  responseData :: json
  physicalResourceId :: "json option"

text \<open>The handler always passes \<^verbatim>\<open>{ "Reason": reason }\<close> as the response data.\<close>

definition reason_data :: "string \<Rightarrow> json" where
  "reason_data reason = JObj [(''Reason'', JStr reason)]"

datatype call =
    StartBuild json "env_var list"
  | Send report

text \<open>
  The environment of one invocation: the answer of the build service to a
  \<^verbatim>\<open>start_build(projectName=p, environmentVariablesOverride=vars)\<close> call (a build, or
  the fault it raises), and the library functions \<^verbatim>\<open>json.dumps\<close> and \<^verbatim>\<open>repr\<close>.
\<close>

record env =
  start_build :: "json \<Rightarrow> env_var list \<Rightarrow> exn + build"
  dumps :: "json \<Rightarrow> string"
  repr :: "json \<Rightarrow> string"

text \<open>
  An action yields the calls it made, in order, and its outcome. \<^verbatim>\<open>cfnresponse.send\<close>
  is the AWS-supplied helper, outside this repository: a call is recorded with its
  arguments and returns.
\<close>

type_synonym 'a action = "call list \<times> (exn + 'a)"

definition pure :: "exn + 'a \<Rightarrow> 'a action" where
  "pure r = ([], r)"

fun next_do :: "'a action \<Rightarrow> ('a \<Rightarrow> 'b action) \<Rightarrow> 'b action" where
  "next_do (t, Inl e) f = (t, Inl e)"
| "next_do (t, Inr x) f = (case f x of (t', r) \<Rightarrow> (t @ t', r))"

definition call_start_build :: "env \<Rightarrow> json \<Rightarrow> env_var list \<Rightarrow> build action" where
  "call_start_build env project vars = ([StartBuild project vars], start_build env project vars)"

definition send :: "status \<Rightarrow> string \<Rightarrow> json option \<Rightarrow> unit action" where
  "send st reason pid =
     ([Send \<lparr>status = st, responseData = reason_data reason, physicalResourceId = pid\<rparr>], Inr ())"

subsection \<open>The handler\<close>

definition get_cfn_env_var_overrides :: "(json \<Rightarrow> string) \<Rightarrow> dict \<Rightarrow> exn + env_var list" where
  "get_cfn_env_var_overrides json_dumps event =
     (let res_config = dict_get event ''ResourceProperties'' (JObj []) in
      and_then (dict_item event ''RequestType'') (\<lambda>request_type.
      let result = [\<lparr>ev_name = ''CFN_EVENT_TYPE'', ev_type = ''PLAINTEXT'', ev_value = request_type\<rparr>] in
      and_then (py_get res_config ''CodeBuildCallback'' JNull) (\<lambda>callback.
      if truthy callback then
        and_then (dict_item event ''LogicalResourceId'') (\<lambda>logical_id.
        and_then (dict_item event ''RequestId'') (\<lambda>request_id.
        and_then (dict_item event ''StackId'') (\<lambda>stack_id.
        and_then (dict_item event ''ResourceProperties'') (\<lambda>props.
        and_then (py_get props ''NoEcho'' (JBool False)) (\<lambda>no_echo.
        and_then (dict_item event ''ResponseURL'') (\<lambda>response_url.
        Inr (result @
          [\<lparr>ev_name = ''CFN_EVENT_DATA'', ev_type = ''PLAINTEXT'',
            ev_value = JStr (json_dumps (JObj
              [(''LogicalResourceId'', logical_id),
               (''RequestId'', request_id),
               (''StackId'', stack_id),
               (''NoEcho'', no_echo),
               (''Data'', JObj [])]))\<rparr>,
           \<lparr>ev_name = ''CFN_EVENT_RESPONSE_URL'', ev_type = ''PLAINTEXT'',
            ev_value = response_url\<rparr>])))))))
      else Inr result)))"

definition handle_create :: "env \<Rightarrow> dict \<Rightarrow> unit action" where
  "handle_create env event =
     next_do (pure (dict_item event ''ResourceProperties'')) (\<lambda>res_config.
     next_do (pure (get_cfn_env_var_overrides (dumps env) event)) (\<lambda>codebuild_env_vars.
     next_do (pure (py_item res_config ''ProjectName'')) (\<lambda>project.
     next_do (call_start_build env project codebuild_env_vars) (\<lambda>result.
     next_do (pure (py_get res_config ''CodeBuildCallback'' JNull)) (\<lambda>callback.
     if \<not> truthy callback then
       send SUCCESS (''Started CodeBuild #'' @ str_int (buildNumber result))
         (Some (JStr (arn result)))
     else pure (Inr ()))))))"

definition handle_delete :: "env \<Rightarrow> dict \<Rightarrow> unit action" where
  "handle_delete env event =
     (let res_config = dict_get event ''ResourceProperties'' (JObj []) in
      next_do (pure (py_get res_config ''BuildOnDelete'' (JBool False))) (\<lambda>build_on_delete.
      next_do
        (if truthy build_on_delete then
           next_do (pure (get_cfn_env_var_overrides (dumps env) event)) (\<lambda>codebuild_env_vars.
           next_do (pure (py_item res_config ''ProjectName'')) (\<lambda>project.
           next_do (call_start_build env project codebuild_env_vars) (\<lambda>result.
           pure (Inr ''Deletion build initiated''))))
         else pure (Inr ''Delete is a no-op'')) (\<lambda>reason.
      next_do
        (if truthy build_on_delete
         then pure (and_then (py_get res_config ''CodeBuildCallback'' JNull)
                      (\<lambda>callback. Inr (truthy callback)))
         else pure (Inr False)) (\<lambda>delegated.
      if \<not> delegated then
        next_do (pure (dict_item event ''PhysicalResourceId'')) (\<lambda>pid.
        send SUCCESS reason (Some pid))
      else pure (Inr ())))))"

definition handle_update :: "env \<Rightarrow> dict \<Rightarrow> unit action" where
  "handle_update env event =
     (let res_config = dict_get event ''ResourceProperties'' (JObj []) in
      next_do (pure (py_get res_config ''IgnoreUpdate'' (JBool False))) (\<lambda>ignore_update.
      next_do
        (if truthy ignore_update then pure (Inr (Some ''Update is a no-op''))
         else
           next_do (pure (get_cfn_env_var_overrides (dumps env) event)) (\<lambda>codebuild_env_vars.
           next_do (pure (py_item res_config ''ProjectName'')) (\<lambda>project.
           next_do (call_start_build env project codebuild_env_vars) (\<lambda>result.
           next_do (pure (py_get res_config ''CodeBuildCalback'' JNull)) (\<lambda>callback.
           if truthy callback then pure (Inr None)
           else pure (Inr (Some (''Started CodeBuild #'' @ str_int (buildNumber result)))))))))
        (\<lambda>reason.
      case reason of
        Some r \<Rightarrow>
          next_do (pure (dict_item event ''PhysicalResourceId'')) (\<lambda>pid.
          send SUCCESS r (Some pid))
      | None \<Rightarrow> pure (Inr ()))))"

text \<open>The body of the \<^verbatim>\<open>try\<close> block of \<^verbatim>\<open>lambda_handler\<close>.\<close>

definition try_body :: "env \<Rightarrow> dict \<Rightarrow> unit action" where
  "try_body env event =
     next_do (pure (dict_item event ''RequestType'')) (\<lambda>request_type.
     if request_type = JStr ''Create'' then handle_create env event
     else if request_type = JStr ''Update'' then handle_update env event
     else if request_type = JStr ''Delete'' then handle_delete env event
     else send FAILED
            (''Unsupported CFN RequestType '' @ quote # py_str (repr env) request_type @ [quote])
            None)"

text \<open>
  \<^verbatim>\<open>lambda_handler\<close>: the calls made, and the exception that leaves the handler
  (\<open>None\<close> when it returns). The \<^verbatim>\<open>except\<close> clause reports \<^verbatim>\<open>FAILED\<close> with \<^verbatim>\<open>str(e)\<close>
  and raises \<^verbatim>\<open>e\<close> again.
\<close>

definition lambda_handler :: "env \<Rightarrow> dict \<Rightarrow> call list \<times> exn option" where
  "lambda_handler env event =
     (case try_body env event of
        (t, Inr u) \<Rightarrow> (t, None)
      | (t, Inl e) \<Rightarrow>
          (t @ [Send \<lparr>status = FAILED, responseData = reason_data (str_exn e),
                      physicalResourceId = None\<rparr>],
           Some e))"

subsection \<open>Notions used to state the properties\<close>

text \<open>
  \<open>resource_config\<close> is the handler's \<^verbatim>\<open>event.get("ResourceProperties", {})\<close>. A flag
  (\<^verbatim>\<open>BuildOnDelete\<close>, \<^verbatim>\<open>CodeBuildCallback\<close>, \<^verbatim>\<open>IgnoreUpdate\<close>) is on when the
  properties are a dict in which the flag's value is truthy.
\<close>

definition resource_config :: "dict \<Rightarrow> json" where
  "resource_config event = dict_get event ''ResourceProperties'' (JObj [])"

definition flag :: "dict \<Rightarrow> string \<Rightarrow> bool" where
  "flag event k =
     (case resource_config event of JObj props \<Rightarrow> truthy (dict_get props k JNull) | _ \<Rightarrow> False)"

definition config_is_dict :: "dict \<Rightarrow> bool" where
  "config_is_dict event = (case resource_config event of JObj props \<Rightarrow> True | _ \<Rightarrow> False)"

fun is_send :: "call \<Rightarrow> bool" where
  "is_send (Send r) = True"
| "is_send (StartBuild p vars) = False"

text \<open>The event with property \<open>k\<close> of its resource properties set to \<open>v\<close>.\<close>

definition set_property :: "dict \<Rightarrow> string \<Rightarrow> json \<Rightarrow> dict" where
  "set_property event k v =
     (case resource_config event of
        JObj props \<Rightarrow> (''ResourceProperties'', JObj ((k, v) # props)) # event
      | _ \<Rightarrow> event)"

subsection \<open>Example invocations\<close>

definition identifiers :: dict where
  "identifiers =
     [(''LogicalResourceId'', JStr ''SampleDeployment''),
      (''RequestId'', JStr ''req-1''),
      (''StackId'', JStr ''stack-1''),
      (''ResponseURL'', JStr ''https://cfn.example/respond'')]"

definition example_event :: "string \<Rightarrow> dict \<Rightarrow> dict" where
  "example_event request_type props =
     (''RequestType'', JStr request_type) # (''ResourceProperties'', JObj props) # identifiers"

text \<open>An update of a resource that asks for the callback, as the template's own does.\<close>

definition update_callback_event :: dict where
  "update_callback_event =
     (''PhysicalResourceId'', JStr ''X'') #
     example_event ''Update'' [(''ProjectName'', JStr ''p1''), (''CodeBuildCallback'', JBool True)]"

text \<open>The overrides of that update under \<open>example_env\<close> below.\<close>

definition update_callback_overrides :: "env_var list" where
  "update_callback_overrides =
     [\<lparr>ev_name = ''CFN_EVENT_TYPE'', ev_type = ''PLAINTEXT'', ev_value = JStr ''Update''\<rparr>,
      \<lparr>ev_name = ''CFN_EVENT_DATA'', ev_type = ''PLAINTEXT'', ev_value = JStr ''{...}''\<rparr>,
      \<lparr>ev_name = ''CFN_EVENT_RESPONSE_URL'', ev_type = ''PLAINTEXT'',
       ev_value = JStr ''https://cfn.example/respond''\<rparr>]"

text \<open>A build service that starts build number 7, and one that refuses.\<close>

definition example_env :: env where
  "example_env =
     \<lparr>start_build = (\<lambda>p vars. Inr \<lparr>arn = ''arn:aws:codebuild:build/p1:7'', buildNumber = 7\<rparr>),
      dumps = (\<lambda>v. ''{...}''),
      repr = (\<lambda>v. ''...'')\<rparr>"

definition failing_env :: env where
  "failing_env =
     \<lparr>start_build = (\<lambda>p vars. Inl (ServiceFault ''AccessDeniedException'')),
      dumps = (\<lambda>v. ''{...}''),
      repr = (\<lambda>v. ''...'')\<rparr>"

section \<open>Lemmas on sequencing and dict access\<close>

lemma next_do_pure:
  "next_do (pure m) f = (case m of Inl e \<Rightarrow> ([], Inl e) | Inr x \<Rightarrow> f x)"
  by (simp add: pure_def split: sum.split prod.split)

lemma call_start_build_next:
  "next_do (call_start_build env p vars) f =
     (case start_build env p vars of
        Inl e \<Rightarrow> ([StartBuild p vars], Inl e)
      | Inr b \<Rightarrow> (StartBuild p vars # fst (f b), snd (f b)))"
  by (simp add: call_start_build_def split: sum.split prod.split)

lemma next_do_if:
  "next_do (if c then a else b) f = (if c then next_do a f else next_do b f)"
  by simp

lemma next_do_assoc:
  "next_do (next_do m f) g = next_do m (\<lambda>x. next_do (f x) g)"
proof (cases m)
  case (Pair t r)
  show ?thesis
  proof (cases r)
    case (Inl e)
    with Pair show ?thesis by simp
  next
    case (Inr x)
    obtain t1 r1 where f: "f x = (t1, r1)" by (cases "f x")
    show ?thesis
    proof (cases r1)
      case (Inl e)
      with Pair Inr f show ?thesis by simp
    next
      case r1: (Inr y)
      obtain t2 r2 where g: "g y = (t2, r2)" by (cases "g y")
      from Pair Inr f r1 g show ?thesis by simp
    qed
  qed
qed

lemma pure_eq_iff: "pure r = (t, x) \<longleftrightarrow> t = [] \<and> x = r"
  by (auto simp: pure_def)

lemma fst_pure: "fst (pure r) = []"
  by (simp add: pure_def)

lemma snd_pure: "snd (pure r) = r"
  by (simp add: pure_def)

lemmas handler_simps = next_do_assoc next_do_pure call_start_build_next next_do_if
  pure_eq_iff fst_pure snd_pure case_prod_beta

lemma truthy_default_False:
  "truthy (dict_get props k (JBool False)) = truthy (dict_get props k JNull)"
  by (simp add: dict_get_def split: option.split)

lemma dict_get_cong: "map_of p1 k = map_of p2 k \<Longrightarrow> dict_get p1 k d = dict_get p2 k d"
  by (simp add: dict_get_def)

lemma dict_item_cong: "map_of p1 k = map_of p2 k \<Longrightarrow> dict_item p1 k = dict_item p2 k"
  by (simp add: dict_item_def)

lemma dict_get_present: "map_of e k = Some v \<Longrightarrow> dict_get e k d = v"
  by (simp add: dict_get_def)

lemma dict_item_present: "map_of e k = Some v \<Longrightarrow> dict_item e k = Inr v"
  by (simp add: dict_item_def)

lemma dict_item_absent: "map_of e k = None \<Longrightarrow> dict_item e k = Inl (KeyError k)"
  by (simp add: dict_item_def)

lemma flag_present:
  "map_of event ''ResourceProperties'' = Some (JObj props) \<Longrightarrow>
     flag event k = truthy (dict_get props k JNull)"
  by (simp add: flag_def resource_config_def dict_get_def)

lemma flagD:
  assumes "flag event k"
  obtains props where "resource_config event = JObj props"
    and "truthy (dict_get props k JNull)"
  using assms by (auto simp: flag_def split: json.splits)

lemma str_int_7: "str_int 7 = ''7''"
  by (simp add: str_int_def str_nat.simps)

lemmas example_defs = example_event_def identifiers_def example_env_def failing_env_def
  update_callback_event_def update_callback_overrides_def

section \<open>The branches of the dispatcher\<close>

text \<open>
  C2, as amended. A \<^verbatim>\<open>Create\<close> event whose \<^verbatim>\<open>CodeBuildCallback\<close> is absent or falsy,
  whose resource properties name a project, and whose build the service starts: the
  handler starts that one build, with the single override \<^verbatim>\<open>CFN_EVENT_TYPE=Create\<close>,
  and sends exactly one report, \<^verbatim>\<open>SUCCESS\<close>, with reason
  \<^verbatim>\<open>Started CodeBuild #<buildNumber>\<close> and the build's ARN as physical resource id;
  no fault leaves the handler. The reason reads \<^verbatim>\<open>Started CodeBuild #\<close>, not
  \<^verbatim>\<open>Started build #\<close>.
\<close>

theorem create_reports_started_build:
  assumes "map_of event ''RequestType'' = Some (JStr ''Create'')"
    and "map_of event ''ResourceProperties'' = Some (JObj props)"
    and "\<not> flag event ''CodeBuildCallback''"
    and "map_of props ''ProjectName'' = Some project"
    and "start_build env project
           [\<lparr>ev_name = ''CFN_EVENT_TYPE'', ev_type = ''PLAINTEXT'', ev_value = JStr ''Create''\<rparr>]
         = Inr b"
  shows "lambda_handler env event =
    ([StartBuild project
        [\<lparr>ev_name = ''CFN_EVENT_TYPE'', ev_type = ''PLAINTEXT'', ev_value = JStr ''Create''\<rparr>],
      Send \<lparr>status = SUCCESS,
             responseData = reason_data (''Started CodeBuild #'' @ str_int (buildNumber b)),
             physicalResourceId = Some (JStr (arn b))\<rparr>],
     None)"
proof -
  have cb: "\<not> truthy (dict_get props ''CodeBuildCallback'' JNull)"
    using assms(2,3) by (simp add: flag_present)
  have "get_cfn_env_var_overrides (dumps env) event =
    Inr [\<lparr>ev_name = ''CFN_EVENT_TYPE'', ev_type = ''PLAINTEXT'', ev_value = JStr ''Create''\<rparr>]"
    using assms(1,2) cb
    by (simp add: get_cfn_env_var_overrides_def dict_item_present dict_get_present)
  then have "handle_create env event =
    ([StartBuild project
        [\<lparr>ev_name = ''CFN_EVENT_TYPE'', ev_type = ''PLAINTEXT'', ev_value = JStr ''Create''\<rparr>],
      Send \<lparr>status = SUCCESS,
             responseData = reason_data (''Started CodeBuild #'' @ str_int (buildNumber b)),
             physicalResourceId = Some (JStr (arn b))\<rparr>], Inr ())"
    using assms(2,4,5) cb
    by (simp add: handle_create_def handler_simps dict_item_present send_def)
  then show ?thesis
    using assms(1) by (simp add: lambda_handler_def try_body_def next_do_pure dict_item_present)
qed

theorem create_reports_started_build_witness:
  "lambda_handler example_env (example_event ''Create'' [(''ProjectName'', JStr ''p1'')]) =
    ([StartBuild (JStr ''p1'')
        [\<lparr>ev_name = ''CFN_EVENT_TYPE'', ev_type = ''PLAINTEXT'', ev_value = JStr ''Create''\<rparr>],
      Send \<lparr>status = SUCCESS,
             responseData = reason_data ''Started CodeBuild #7'',
             physicalResourceId = Some (JStr ''arn:aws:codebuild:build/p1:7'')\<rparr>],
     None)"
  using create_reports_started_build
    [of "example_event ''Create'' [(''ProjectName'', JStr ''p1'')]"
        "[(''ProjectName'', JStr ''p1'')]" "JStr ''p1''" example_env
        "\<lparr>arn = ''arn:aws:codebuild:build/p1:7'', buildNumber = 7\<rparr>"]
  by (simp add: example_defs flag_present dict_get_def str_int_7)

text \<open>
  The claim C2 as the specification words it fails on this \<^verbatim>\<open>Create\<close> event: the one
  report sent carries the reason \<^verbatim>\<open>Started CodeBuild #7\<close>, and no report with the
  reason \<^verbatim>\<open>Started build #7\<close> is sent.
\<close>

theorem create_reason_counterexample:
  "map_of (example_event ''Create'' [(''ProjectName'', JStr ''p1'')]) ''RequestType''
      = Some (JStr ''Create'')
   \<and> \<not> flag (example_event ''Create'' [(''ProjectName'', JStr ''p1'')]) ''CodeBuildCallback''
   \<and> lambda_handler example_env (example_event ''Create'' [(''ProjectName'', JStr ''p1'')]) =
      ([StartBuild (JStr ''p1'')
          [\<lparr>ev_name = ''CFN_EVENT_TYPE'', ev_type = ''PLAINTEXT'', ev_value = JStr ''Create''\<rparr>],
        Send \<lparr>status = SUCCESS,
               responseData = reason_data ''Started CodeBuild #7'',
               physicalResourceId = Some (JStr ''arn:aws:codebuild:build/p1:7'')\<rparr>],
       None)
   \<and> Send \<lparr>status = SUCCESS,
            responseData = reason_data ''Started build #7'',
            physicalResourceId = Some (JStr ''arn:aws:codebuild:build/p1:7'')\<rparr>
       \<notin> set (fst (lambda_handler example_env
                  (example_event ''Create'' [(''ProjectName'', JStr ''p1'')])))"
  by (simp add: example_defs flag_present dict_get_def get_cfn_env_var_overrides_def
      dict_item_def str_int_7 lambda_handler_def try_body_def handle_create_def handler_simps
      send_def reason_data_def)

text \<open>
  C8, as amended. A \<^verbatim>\<open>Create\<close> event whose \<^verbatim>\<open>CodeBuildCallback\<close> is truthy, whose
  resource properties name a project, whose overrides \<open>vars\<close> can be built and whose
  build the service starts: the handler starts that build and sends no report; no
  fault leaves the handler.
\<close>

theorem create_with_callback_sends_nothing:
  assumes "map_of event ''RequestType'' = Some (JStr ''Create'')"
    and "map_of event ''ResourceProperties'' = Some (JObj props)"
    and "flag event ''CodeBuildCallback''"
    and "map_of props ''ProjectName'' = Some project"
    and "get_cfn_env_var_overrides (dumps env) event = Inr vars"
    and "start_build env project vars = Inr b"
  shows "lambda_handler env event = ([StartBuild project vars], None)"
proof -
  have "truthy (dict_get props ''CodeBuildCallback'' JNull)"
    using assms(2,3) by (simp add: flag_present)
  then have "handle_create env event = ([StartBuild project vars], Inr ())"
    using assms(2,4,5,6)
    by (simp add: handle_create_def handler_simps dict_item_present)
  then show ?thesis
    using assms(1) by (simp add: lambda_handler_def try_body_def next_do_pure dict_item_present)
qed

theorem create_with_callback_sends_nothing_witness:
  "lambda_handler example_env
     (example_event ''Create'' [(''ProjectName'', JStr ''p1''), (''CodeBuildCallback'', JBool True)]) =
    ([StartBuild (JStr ''p1'')
        [\<lparr>ev_name = ''CFN_EVENT_TYPE'', ev_type = ''PLAINTEXT'', ev_value = JStr ''Create''\<rparr>,
         \<lparr>ev_name = ''CFN_EVENT_DATA'', ev_type = ''PLAINTEXT'', ev_value = JStr ''{...}''\<rparr>,
         \<lparr>ev_name = ''CFN_EVENT_RESPONSE_URL'', ev_type = ''PLAINTEXT'',
          ev_value = JStr ''https://cfn.example/respond''\<rparr>]],
     None)"
  using create_with_callback_sends_nothing
    [of "example_event ''Create'' [(''ProjectName'', JStr ''p1''), (''CodeBuildCallback'', JBool True)]"
        "[(''ProjectName'', JStr ''p1''), (''CodeBuildCallback'', JBool True)]" "JStr ''p1''"
        example_env
        "[\<lparr>ev_name = ''CFN_EVENT_TYPE'', ev_type = ''PLAINTEXT'', ev_value = JStr ''Create''\<rparr>,
          \<lparr>ev_name = ''CFN_EVENT_DATA'', ev_type = ''PLAINTEXT'', ev_value = JStr ''{...}''\<rparr>,
          \<lparr>ev_name = ''CFN_EVENT_RESPONSE_URL'', ev_type = ''PLAINTEXT'',
           ev_value = JStr ''https://cfn.example/respond''\<rparr>]"
        "\<lparr>arn = ''arn:aws:codebuild:build/p1:7'', buildNumber = 7\<rparr>"]
  by (simp add: example_defs flag_present dict_get_def get_cfn_env_var_overrides_def dict_item_def)

text \<open>
  The claim C8 as the specification words it fails on \<^verbatim>\<open>Create\<close> events that ask
  for the callback when the build cannot be started. Without \<^verbatim>\<open>ProjectName\<close> no
  build is started and one \<^verbatim>\<open>FAILED\<close> report is sent; when the service refuses
  the build, the call is made and one \<^verbatim>\<open>FAILED\<close> report follows. In both cases the
  fault leaves the handler.
\<close>

theorem create_with_callback_counterexample:
  "map_of (example_event ''Create'' [(''CodeBuildCallback'', JBool True)]) ''RequestType''
      = Some (JStr ''Create'')
   \<and> flag (example_event ''Create'' [(''CodeBuildCallback'', JBool True)]) ''CodeBuildCallback''
   \<and> lambda_handler example_env (example_event ''Create'' [(''CodeBuildCallback'', JBool True)]) =
       ([Send \<lparr>status = FAILED,
                responseData = reason_data (quote # ''ProjectName'' @ [quote]),
                physicalResourceId = None\<rparr>],
        Some (KeyError ''ProjectName''))
   \<and> flag (example_event ''Create''
         [(''ProjectName'', JStr ''p1''), (''CodeBuildCallback'', JBool True)]) ''CodeBuildCallback''
   \<and> lambda_handler failing_env
       (example_event ''Create''
         [(''ProjectName'', JStr ''p1''), (''CodeBuildCallback'', JBool True)]) =
       ([StartBuild (JStr ''p1'')
           [\<lparr>ev_name = ''CFN_EVENT_TYPE'', ev_type = ''PLAINTEXT'', ev_value = JStr ''Create''\<rparr>,
            \<lparr>ev_name = ''CFN_EVENT_DATA'', ev_type = ''PLAINTEXT'', ev_value = JStr ''{...}''\<rparr>,
            \<lparr>ev_name = ''CFN_EVENT_RESPONSE_URL'', ev_type = ''PLAINTEXT'',
             ev_value = JStr ''https://cfn.example/respond''\<rparr>],
         Send \<lparr>status = FAILED, responseData = reason_data ''AccessDeniedException'',
                physicalResourceId = None\<rparr>],
        Some (ServiceFault ''AccessDeniedException''))"
  by (simp add: example_defs flag_def resource_config_def lambda_handler_def try_body_def
      handle_create_def handler_simps dict_item_def dict_get_def get_cfn_env_var_overrides_def)

text \<open>
  C3. An \<^verbatim>\<open>Update\<close> event whose \<^verbatim>\<open>IgnoreUpdate\<close> is truthy and that carries a
  \<^verbatim>\<open>PhysicalResourceId\<close>: no build is started and exactly one report is sent,
  \<^verbatim>\<open>SUCCESS\<close> with reason \<^verbatim>\<open>Update is a no-op\<close> and the event's own physical
  resource id; no fault leaves the handler.
\<close>

theorem update_ignored_is_noop:
  assumes rt: "map_of event ''RequestType'' = Some (JStr ''Update'')"
    and ign: "flag event ''IgnoreUpdate''"
    and pid: "map_of event ''PhysicalResourceId'' = Some pid"
  shows "lambda_handler env event =
    ([Send \<lparr>status = SUCCESS, responseData = reason_data ''Update is a no-op'',
             physicalResourceId = Some pid\<rparr>], None)"
proof -
  from ign obtain props where c: "dict_get event ''ResourceProperties'' (JObj []) = JObj props"
    and t: "truthy (dict_get props ''IgnoreUpdate'' JNull)"
    by (auto elim: flagD simp: resource_config_def)
  have "handle_update env event = send SUCCESS ''Update is a no-op'' (Some pid)"
    using t pid by (simp add: handle_update_def c truthy_default_False dict_item_def next_do_pure)
  then show ?thesis
    using rt by (simp add: lambda_handler_def try_body_def dict_item_def send_def next_do_pure)
qed

theorem update_ignored_is_noop_witness:
  "lambda_handler example_env
     ((''PhysicalResourceId'', JStr ''X'') #
      example_event ''Update'' [(''ProjectName'', JStr ''p1''), (''IgnoreUpdate'', JBool True)]) =
    ([Send \<lparr>status = SUCCESS, responseData = reason_data ''Update is a no-op'',
             physicalResourceId = Some (JStr ''X'')\<rparr>], None)"
  using update_ignored_is_noop
    [of "(''PhysicalResourceId'', JStr ''X'') #
         example_event ''Update'' [(''ProjectName'', JStr ''p1''), (''IgnoreUpdate'', JBool True)]"
        "JStr ''X''" example_env]
  by (simp add: example_defs flag_def resource_config_def dict_get_def)

text \<open>
  C5. An event whose \<^verbatim>\<open>RequestType\<close> is none of \<^verbatim>\<open>Create\<close>, \<^verbatim>\<open>Update\<close>,
  \<^verbatim>\<open>Delete\<close>: no build is started and exactly one report is sent, \<^verbatim>\<open>FAILED\<close>, whose
  reason is \<^verbatim>\<open>Unsupported CFN RequestType '<type>'\<close>; no fault leaves the handler.
\<close>

theorem unsupported_request_type_fails:
  assumes "map_of event ''RequestType'' = Some rt"
    and "rt \<noteq> JStr ''Create''" and "rt \<noteq> JStr ''Update''" and "rt \<noteq> JStr ''Delete''"
  shows "lambda_handler env event =
    ([Send \<lparr>status = FAILED,
             responseData = reason_data
               (''Unsupported CFN RequestType '' @ quote # py_str (repr env) rt @ [quote]),
             physicalResourceId = None\<rparr>], None)"
  using assms by (simp add: lambda_handler_def try_body_def dict_item_def send_def next_do_pure)

theorem unsupported_request_type_fails_witness:
  "lambda_handler example_env (example_event ''Replace'' [(''ProjectName'', JStr ''p1'')]) =
    ([Send \<lparr>status = FAILED,
             responseData = reason_data
               (''Unsupported CFN RequestType '' @ quote # ''Replace'' @ [quote]),
             physicalResourceId = None\<rparr>], None)"
  using unsupported_request_type_fails
    [of "example_event ''Replace'' [(''ProjectName'', JStr ''p1'')]" "JStr ''Replace''" example_env]
  by (simp add: example_defs)

section \<open>Delete events\<close>

lemma config_dictD:
  assumes "config_is_dict event"
  obtains props where "resource_config event = JObj props"
  using assms by (auto simp: config_is_dict_def split: json.splits)

lemma flag_config:
  "resource_config event = JObj props \<Longrightarrow> flag event k = truthy (dict_get props k JNull)"
  by (simp add: flag_def)

lemma lambda_handler_Delete:
  "map_of event ''RequestType'' = Some (JStr ''Delete'') \<Longrightarrow>
     lambda_handler env event =
       (case handle_delete env event of
          (t, Inr u) \<Rightarrow> (t, None)
        | (t, Inl e) \<Rightarrow>
            (t @ [Send \<lparr>status = FAILED, responseData = reason_data (str_exn e),
                        physicalResourceId = None\<rparr>], Some e))"
  by (simp add: lambda_handler_def try_body_def next_do_pure dict_item_present)







section \<open>Faults\<close>

lemma create_fault_no_send:
  "handle_create env event = (t, Inl e) \<Longrightarrow> filter is_send t = []"
  by (auto simp: handle_create_def handler_simps send_def
      split: sum.splits if_splits)

lemma delete_fault_no_send:
  "handle_delete env event = (t, Inl e) \<Longrightarrow> filter is_send t = []"
  by (auto simp: handle_delete_def handler_simps send_def Let_def
      split: sum.splits if_splits)

lemma update_fault_no_send:
  "handle_update env event = (t, Inl e) \<Longrightarrow> filter is_send t = []"
  by (auto simp: handle_update_def handler_simps send_def Let_def
      split: sum.splits if_splits option.splits)

lemma try_body_fault_no_send:
  "try_body env event = (t, Inl e) \<Longrightarrow> filter is_send t = []"
  by (auto simp: try_body_def next_do_pure send_def
       dest: create_fault_no_send delete_fault_no_send update_fault_no_send
      split: sum.splits if_splits)

text \<open>
  C6. When the body of the handler raises a fault \<open>e\<close> (a failing \<^verbatim>\<open>start_build\<close>, a
  missing key, a property bag that is no dict), the handler sends the \<^verbatim>\<open>FAILED\<close>
  report with reason \<^verbatim>\<open>str(e)\<close> as its last call, this is the only report of the
  invocation, and the same \<open>e\<close> leaves the handler.
\<close>

theorem fault_reported_once_and_reraised:
  assumes "snd (try_body env event) = Inl e"
  shows "lambda_handler env event =
      (fst (try_body env event) @
         [Send \<lparr>status = FAILED, responseData = reason_data (str_exn e),
                physicalResourceId = None\<rparr>],
       Some e)
    \<and> filter is_send (fst (lambda_handler env event)) =
        [Send \<lparr>status = FAILED, responseData = reason_data (str_exn e),
               physicalResourceId = None\<rparr>]"
proof -
  obtain t where t: "try_body env event = (t, Inl e)"
    using assms by (cases "try_body env event") simp
  then have "filter is_send t = []"
    by (rule try_body_fault_no_send)
  with t show ?thesis
    by (simp add: lambda_handler_def)
qed

theorem fault_reported_once_and_reraised_witness:
  "lambda_handler failing_env (example_event ''Create'' [(''ProjectName'', JStr ''p1'')]) =
     ([StartBuild (JStr ''p1'')
         [\<lparr>ev_name = ''CFN_EVENT_TYPE'', ev_type = ''PLAINTEXT'', ev_value = JStr ''Create''\<rparr>],
       Send \<lparr>status = FAILED, responseData = reason_data ''AccessDeniedException'',
              physicalResourceId = None\<rparr>],
      Some (ServiceFault ''AccessDeniedException''))
   \<and> filter is_send
       (fst (lambda_handler failing_env (example_event ''Create'' [(''ProjectName'', JStr ''p1'')]))) =
     [Send \<lparr>status = FAILED, responseData = reason_data ''AccessDeniedException'',
            physicalResourceId = None\<rparr>]
   \<and> lambda_handler example_env (example_event ''Create'' []) =
     ([Send \<lparr>status = FAILED, responseData = reason_data (quote # ''ProjectName'' @ [quote]),
              physicalResourceId = None\<rparr>],
      Some (KeyError ''ProjectName''))"
proof -
  have a: "try_body failing_env (example_event ''Create'' [(''ProjectName'', JStr ''p1'')]) =
    ([StartBuild (JStr ''p1'')
         [\<lparr>ev_name = ''CFN_EVENT_TYPE'', ev_type = ''PLAINTEXT'', ev_value = JStr ''Create''\<rparr>]],
     Inl (ServiceFault ''AccessDeniedException''))"
    by (simp add: example_defs try_body_def handle_create_def handler_simps dict_item_def
        get_cfn_env_var_overrides_def dict_get_def)
  have b: "try_body example_env (example_event ''Create'' []) = ([], Inl (KeyError ''ProjectName''))"
    by (simp add: example_defs try_body_def handle_create_def handler_simps dict_item_def
        get_cfn_env_var_overrides_def dict_get_def)
  show ?thesis
    using fault_reported_once_and_reraised
        [of failing_env "example_event ''Create'' [(''ProjectName'', JStr ''p1'')]"
            "ServiceFault ''AccessDeniedException''"]
      fault_reported_once_and_reraised
        [of example_env "example_event ''Create'' []" "KeyError ''ProjectName''"]
    by (simp add: a b)
qed

section \<open>The overrides passed to a build\<close>

lemma create_builds:
  "StartBuild p vars \<in> set (fst (handle_create env event)) \<Longrightarrow>
     get_cfn_env_var_overrides (dumps env) event = Inr vars"
  by (auto simp: handle_create_def handler_simps send_def
      split: sum.splits if_splits)

lemma delete_builds:
  "StartBuild p vars \<in> set (fst (handle_delete env event)) \<Longrightarrow>
     get_cfn_env_var_overrides (dumps env) event = Inr vars"
  by (auto simp: handle_delete_def handler_simps send_def Let_def
      split: sum.splits if_splits)

lemma update_builds:
  "StartBuild p vars \<in> set (fst (handle_update env event)) \<Longrightarrow>
     get_cfn_env_var_overrides (dumps env) event = Inr vars"
  by (auto simp: handle_update_def handler_simps send_def Let_def
      split: sum.splits if_splits option.splits)

lemma try_body_builds:
  "StartBuild p vars \<in> set (fst (try_body env event)) \<Longrightarrow>
     get_cfn_env_var_overrides (dumps env) event = Inr vars"
  by (auto simp: try_body_def next_do_pure send_def
       dest: create_builds delete_builds update_builds
      split: sum.splits if_splits)

lemma lambda_handler_builds:
  assumes "StartBuild p vars \<in> set (fst (lambda_handler env event))"
  shows "get_cfn_env_var_overrides (dumps env) event = Inr vars"
proof -
  have "StartBuild p vars \<in> set (fst (try_body env event))"
    using assms by (auto simp: lambda_handler_def split: prod.splits sum.splits)
  then show ?thesis by (rule try_body_builds)
qed

lemma and_then_Inr_iff:
  "and_then m f = Inr y \<longleftrightarrow> (\<exists>x. m = Inr x \<and> f x = Inr y)"
  by (cases m) auto

lemma dict_item_Inr_iff: "dict_item d k = Inr v \<longleftrightarrow> map_of d k = Some v"
  by (simp add: dict_item_def split: option.split)

lemma py_get_Inr_iff:
  "py_get c k dflt = Inr v \<longleftrightarrow> (\<exists>props. c = JObj props \<and> v = dict_get props k dflt)"
  by (cases c) auto

lemma overrides_shape:
  assumes "get_cfn_env_var_overrides d event = Inr vars"
  shows "\<exists>rt. map_of event ''RequestType'' = Some rt \<and>
    (if flag event ''CodeBuildCallback'' then
       \<exists>l r s u props.
         map_of event ''LogicalResourceId'' = Some l \<and>
         map_of event ''RequestId'' = Some r \<and>
         map_of event ''StackId'' = Some s \<and>
         map_of event ''ResponseURL'' = Some u \<and>
         map_of event ''ResourceProperties'' = Some (JObj props) \<and>
         vars =
           [\<lparr>ev_name = ''CFN_EVENT_TYPE'', ev_type = ''PLAINTEXT'', ev_value = rt\<rparr>,
            \<lparr>ev_name = ''CFN_EVENT_DATA'', ev_type = ''PLAINTEXT'',
             ev_value = JStr (d (JObj
               [(''LogicalResourceId'', l), (''RequestId'', r), (''StackId'', s),
                (''NoEcho'', dict_get props ''NoEcho'' (JBool False)),
                (''Data'', JObj [])]))\<rparr>,
            \<lparr>ev_name = ''CFN_EVENT_RESPONSE_URL'', ev_type = ''PLAINTEXT'', ev_value = u\<rparr>]
     else vars = [\<lparr>ev_name = ''CFN_EVENT_TYPE'', ev_type = ''PLAINTEXT'', ev_value = rt\<rparr>])"
  using assms
  by (auto simp: get_cfn_env_var_overrides_def and_then_Inr_iff dict_item_Inr_iff py_get_Inr_iff
      flag_def resource_config_def Let_def split: if_splits)

lemma update_callback_example:
  "lambda_handler example_env update_callback_event =
     ([StartBuild (JStr ''p1'') update_callback_overrides,
       Send \<lparr>status = SUCCESS, responseData = reason_data ''Started CodeBuild #7'',
              physicalResourceId = Some (JStr ''X'')\<rparr>],
      None)"
  by (simp add: example_defs lambda_handler_def try_body_def handle_update_def handler_simps
      dict_item_def dict_get_def get_cfn_env_var_overrides_def send_def str_int_7)

text \<open>
  C7. Whenever the handler calls \<^verbatim>\<open>start_build\<close>, the overrides it passes begin with
  \<^verbatim>\<open>CFN_EVENT_TYPE\<close>, whose value is the event's \<^verbatim>\<open>RequestType\<close>. If
  \<^verbatim>\<open>CodeBuildCallback\<close> is truthy they continue with \<^verbatim>\<open>CFN_EVENT_DATA\<close>, the
  \<^verbatim>\<open>json.dumps\<close> of the object with the event's \<^verbatim>\<open>LogicalResourceId\<close>,
  \<^verbatim>\<open>RequestId\<close>, \<^verbatim>\<open>StackId\<close>, the \<^verbatim>\<open>NoEcho\<close> property (default \<^verbatim>\<open>False\<close>) and an
  empty \<^verbatim>\<open>Data\<close>, and with \<^verbatim>\<open>CFN_EVENT_RESPONSE_URL\<close>, the event's
  \<^verbatim>\<open>ResponseURL\<close>; otherwise \<^verbatim>\<open>CFN_EVENT_TYPE\<close> is the only override.
\<close>

theorem build_env_overrides:
  assumes "StartBuild project vars \<in> set (fst (lambda_handler env event))"
  shows "\<exists>rt. map_of event ''RequestType'' = Some rt \<and>
    (if flag event ''CodeBuildCallback'' then
       \<exists>l r s u props.
         map_of event ''LogicalResourceId'' = Some l \<and>
         map_of event ''RequestId'' = Some r \<and>
         map_of event ''StackId'' = Some s \<and>
         map_of event ''ResponseURL'' = Some u \<and>
         map_of event ''ResourceProperties'' = Some (JObj props) \<and>
         vars =
           [\<lparr>ev_name = ''CFN_EVENT_TYPE'', ev_type = ''PLAINTEXT'', ev_value = rt\<rparr>,
            \<lparr>ev_name = ''CFN_EVENT_DATA'', ev_type = ''PLAINTEXT'',
             ev_value = JStr (dumps env (JObj
               [(''LogicalResourceId'', l), (''RequestId'', r), (''StackId'', s),
                (''NoEcho'', dict_get props ''NoEcho'' (JBool False)),
                (''Data'', JObj [])]))\<rparr>,
            \<lparr>ev_name = ''CFN_EVENT_RESPONSE_URL'', ev_type = ''PLAINTEXT'', ev_value = u\<rparr>]
     else vars = [\<lparr>ev_name = ''CFN_EVENT_TYPE'', ev_type = ''PLAINTEXT'', ev_value = rt\<rparr>])"
  using assms by (intro overrides_shape lambda_handler_builds)

theorem build_env_overrides_witness:
  "StartBuild (JStr ''p1'') update_callback_overrides
     \<in> set (fst (lambda_handler example_env update_callback_event))
   \<and> flag update_callback_event ''CodeBuildCallback''
   \<and> (\<exists>rt. map_of update_callback_event ''RequestType'' = Some rt \<and>
       (\<exists>l r s u props.
          map_of update_callback_event ''LogicalResourceId'' = Some l \<and>
          map_of update_callback_event ''RequestId'' = Some r \<and>
          map_of update_callback_event ''StackId'' = Some s \<and>
          map_of update_callback_event ''ResponseURL'' = Some u \<and>
          map_of update_callback_event ''ResourceProperties'' = Some (JObj props) \<and>
          update_callback_overrides =
            [\<lparr>ev_name = ''CFN_EVENT_TYPE'', ev_type = ''PLAINTEXT'', ev_value = rt\<rparr>,
             \<lparr>ev_name = ''CFN_EVENT_DATA'', ev_type = ''PLAINTEXT'',
              ev_value = JStr (dumps example_env (JObj
                [(''LogicalResourceId'', l), (''RequestId'', r), (''StackId'', s),
                 (''NoEcho'', dict_get props ''NoEcho'' (JBool False)),
                 (''Data'', JObj [])]))\<rparr>,
             \<lparr>ev_name = ''CFN_EVENT_RESPONSE_URL'', ev_type = ''PLAINTEXT'', ev_value = u\<rparr>]))"
proof -
  have started: "StartBuild (JStr ''p1'') update_callback_overrides
      \<in> set (fst (lambda_handler example_env update_callback_event))"
    by (simp add: update_callback_example)
  have callback: "flag update_callback_event ''CodeBuildCallback''"
    by (simp add: example_defs flag_def resource_config_def dict_get_def)
  have "(\<exists>rt. map_of update_callback_event ''RequestType'' = Some rt \<and>
       (\<exists>l r s u props.
          map_of update_callback_event ''LogicalResourceId'' = Some l \<and>
          map_of update_callback_event ''RequestId'' = Some r \<and>
          map_of update_callback_event ''StackId'' = Some s \<and>
          map_of update_callback_event ''ResponseURL'' = Some u \<and>
          map_of update_callback_event ''ResourceProperties'' = Some (JObj props) \<and>
          update_callback_overrides =
            [\<lparr>ev_name = ''CFN_EVENT_TYPE'', ev_type = ''PLAINTEXT'', ev_value = rt\<rparr>,
             \<lparr>ev_name = ''CFN_EVENT_DATA'', ev_type = ''PLAINTEXT'',
              ev_value = JStr (dumps example_env (JObj
                [(''LogicalResourceId'', l), (''RequestId'', r), (''StackId'', s),
                 (''NoEcho'', dict_get props ''NoEcho'' (JBool False)),
                 (''Data'', JObj [])]))\<rparr>,
             \<lparr>ev_name = ''CFN_EVENT_RESPONSE_URL'', ev_type = ''PLAINTEXT'', ev_value = u\<rparr>]))"
    using build_env_overrides [OF started] by (simp only: callback if_True)
  with started callback show ?thesis
    by (intro conjI)
qed

section \<open>Updates that ask for the callback\<close>

text \<open>
  C1. The invariant fails on an \<^verbatim>\<open>Update\<close> event that asks for the callback:
  \<^verbatim>\<open>handle_update\<close> reads the key \<^verbatim>\<open>CodeBuildCalback\<close>, which the event does not
  carry, so with \<^verbatim>\<open>CodeBuildCallback\<close> true and \<^verbatim>\<open>IgnoreUpdate\<close> absent the handler
  starts the build with the callback overrides and still sends its own \<^verbatim>\<open>SUCCESS\<close>
  report.
\<close>

theorem update_with_callback_still_reports:
  "map_of update_callback_event ''RequestType'' = Some (JStr ''Update'')
   \<and> flag update_callback_event ''CodeBuildCallback''
   \<and> \<not> flag update_callback_event ''IgnoreUpdate''
   \<and> lambda_handler example_env update_callback_event =
       ([StartBuild (JStr ''p1'') update_callback_overrides,
         Send \<lparr>status = SUCCESS, responseData = reason_data ''Started CodeBuild #7'',
                physicalResourceId = Some (JStr ''X'')\<rparr>],
        None)"
  by (simp add: update_callback_example)
     (simp add: example_defs flag_def resource_config_def dict_get_def)

section \<open>Delete events without a physical resource id\<close>

lemma delete_no_pid_faults:
  assumes "map_of event ''PhysicalResourceId'' = None"
    and "\<not> (flag event ''BuildOnDelete'' \<and> flag event ''CodeBuildCallback'')"
  shows "\<exists>e. snd (handle_delete env event) = Inl e"
proof (cases "resource_config event")
  case (JObj props)
  then show ?thesis
    using assms
    by (auto simp: handle_delete_def handler_simps flag_def resource_config_def dict_item_absent
        truthy_default_False Let_def split: sum.splits)
qed (simp_all add: handle_delete_def handler_simps resource_config_def Let_def)

text \<open>
  C9, as amended. A \<^verbatim>\<open>Delete\<close> event without \<^verbatim>\<open>PhysicalResourceId\<close>, unless both
  \<^verbatim>\<open>BuildOnDelete\<close> and \<^verbatim>\<open>CodeBuildCallback\<close> are truthy: a fault leaves the handler
  and the only report sent is \<^verbatim>\<open>FAILED\<close> with that fault's description. When
  \<^verbatim>\<open>BuildOnDelete\<close> is absent or falsy the fault is the \<^verbatim>\<open>KeyError\<close> of
  \<^verbatim>\<open>PhysicalResourceId\<close>, raised when the report is built, and nothing else is done.
\<close>

theorem delete_without_physical_id_faults:
  assumes "map_of event ''RequestType'' = Some (JStr ''Delete'')"
    and "map_of event ''PhysicalResourceId'' = None"
    and "\<not> (flag event ''BuildOnDelete'' \<and> flag event ''CodeBuildCallback'')"
  shows "(\<exists>e. snd (lambda_handler env event) = Some e \<and>
            filter is_send (fst (lambda_handler env event)) =
              [Send \<lparr>status = FAILED, responseData = reason_data (str_exn e),
                     physicalResourceId = None\<rparr>])
       \<and> (config_is_dict event \<and> \<not> flag event ''BuildOnDelete'' \<longrightarrow>
            lambda_handler env event =
              ([Send \<lparr>status = FAILED,
                       responseData = reason_data (str_exn (KeyError ''PhysicalResourceId'')),
                       physicalResourceId = None\<rparr>],
               Some (KeyError ''PhysicalResourceId'')))"
proof (intro conjI impI)
  obtain e where "snd (handle_delete env event) = Inl e"
    using delete_no_pid_faults [OF assms(2,3)] by blast
  then obtain t where t: "handle_delete env event = (t, Inl e)"
    by (cases "handle_delete env event") simp
  then have "filter is_send t = []"
    by (rule delete_fault_no_send)
  with t show "\<exists>e. snd (lambda_handler env event) = Some e \<and>
            filter is_send (fst (lambda_handler env event)) =
              [Send \<lparr>status = FAILED, responseData = reason_data (str_exn e),
                     physicalResourceId = None\<rparr>]"
    using assms(1) by (simp add: lambda_handler_Delete)
next
  assume a: "config_is_dict event \<and> \<not> flag event ''BuildOnDelete''"
  then obtain props where c: "resource_config event = JObj props"
    by (auto elim: config_dictD)
  have "\<not> truthy (dict_get props ''BuildOnDelete'' JNull)"
    using a c by (simp add: flag_config)
  then have "handle_delete env event = ([], Inl (KeyError ''PhysicalResourceId''))"
    using c assms(2)
    by (simp add: handle_delete_def resource_config_def truthy_default_False
        dict_item_absent handler_simps)
  then show "lambda_handler env event =
              ([Send \<lparr>status = FAILED,
                       responseData = reason_data (str_exn (KeyError ''PhysicalResourceId'')),
                       physicalResourceId = None\<rparr>],
               Some (KeyError ''PhysicalResourceId''))"
    using assms(1) by (simp add: lambda_handler_Delete)
qed

theorem delete_without_physical_id_faults_witness:
  "lambda_handler example_env
     (example_event ''Delete'' [(''ProjectName'', JStr ''p1'')]) =
     ([Send \<lparr>status = FAILED,
              responseData = reason_data (quote # ''PhysicalResourceId'' @ [quote]),
              physicalResourceId = None\<rparr>],
      Some (KeyError ''PhysicalResourceId''))"
  using delete_without_physical_id_faults
    [of "example_event ''Delete'' [(''ProjectName'', JStr ''p1'')]" example_env]
  by (simp add: example_defs flag_def config_is_dict_def resource_config_def dict_get_def)

text \<open>
  The claim C9 as the specification words it fails when the report is delegated: with
  \<^verbatim>\<open>BuildOnDelete\<close> and \<^verbatim>\<open>CodeBuildCallback\<close> both true the handler never reads
  \<^verbatim>\<open>PhysicalResourceId\<close>; it starts the build, sends nothing and returns.
\<close>

theorem delete_delegated_without_physical_id:
  "map_of (example_event ''Delete''
        [(''ProjectName'', JStr ''p1''), (''BuildOnDelete'', JBool True),
         (''CodeBuildCallback'', JBool True)]) ''RequestType'' = Some (JStr ''Delete'')
   \<and> map_of (example_event ''Delete''
        [(''ProjectName'', JStr ''p1''), (''BuildOnDelete'', JBool True),
         (''CodeBuildCallback'', JBool True)]) ''PhysicalResourceId'' = None
   \<and> lambda_handler example_env
     (example_event ''Delete''
        [(''ProjectName'', JStr ''p1''), (''BuildOnDelete'', JBool True),
         (''CodeBuildCallback'', JBool True)]) =
     ([StartBuild (JStr ''p1'')
         [\<lparr>ev_name = ''CFN_EVENT_TYPE'', ev_type = ''PLAINTEXT'', ev_value = JStr ''Delete''\<rparr>,
          \<lparr>ev_name = ''CFN_EVENT_DATA'', ev_type = ''PLAINTEXT'', ev_value = JStr ''{...}''\<rparr>,
          \<lparr>ev_name = ''CFN_EVENT_RESPONSE_URL'', ev_type = ''PLAINTEXT'',
           ev_value = JStr ''https://cfn.example/respond''\<rparr>]], None)"
  by (simp add: example_defs lambda_handler_def try_body_def handle_delete_def handler_simps
      dict_item_def dict_get_def get_cfn_env_var_overrides_def)

section \<open>Flags are read by truthiness\<close>

lemma overrides_cong:
  assumes "map_of e1 ''RequestType'' = map_of e2 ''RequestType''"
    and "map_of e1 ''LogicalResourceId'' = map_of e2 ''LogicalResourceId''"
    and "map_of e1 ''RequestId'' = map_of e2 ''RequestId''"
    and "map_of e1 ''StackId'' = map_of e2 ''StackId''"
    and "map_of e1 ''ResponseURL'' = map_of e2 ''ResponseURL''"
    and "map_of e1 ''ResourceProperties'' = Some (JObj p1)"
    and "map_of e2 ''ResourceProperties'' = Some (JObj p2)"
    and "map_of p1 ''NoEcho'' = map_of p2 ''NoEcho''"
    and "truthy (dict_get p1 ''CodeBuildCallback'' JNull) = truthy (dict_get p2 ''CodeBuildCallback'' JNull)"
  shows "get_cfn_env_var_overrides d e1 = get_cfn_env_var_overrides d e2"
  using assms by (simp add: get_cfn_env_var_overrides_def dict_item_def dict_get_present Let_def
      dict_get_cong [of p1 "''NoEcho''" p2]
      cong: if_cong split: option.split)

lemma create_cong:
  assumes "get_cfn_env_var_overrides (dumps env) e1 = get_cfn_env_var_overrides (dumps env) e2"
    and "map_of e1 ''ResourceProperties'' = Some (JObj p1)"
    and "map_of e2 ''ResourceProperties'' = Some (JObj p2)"
    and "map_of p1 ''ProjectName'' = map_of p2 ''ProjectName''"
    and "truthy (dict_get p1 ''CodeBuildCallback'' JNull) = truthy (dict_get p2 ''CodeBuildCallback'' JNull)"
  shows "handle_create env e1 = handle_create env e2"
  using assms
  by (simp add: handle_create_def dict_item_present dict_item_cong [of p1 _ p2] handler_simps
      cong: if_cong split: sum.split)

lemma delete_cong:
  assumes "get_cfn_env_var_overrides (dumps env) e1 = get_cfn_env_var_overrides (dumps env) e2"
    and "map_of e1 ''ResourceProperties'' = Some (JObj p1)"
    and "map_of e2 ''ResourceProperties'' = Some (JObj p2)"
    and "map_of e1 ''PhysicalResourceId'' = map_of e2 ''PhysicalResourceId''"
    and "map_of p1 ''ProjectName'' = map_of p2 ''ProjectName''"
    and "truthy (dict_get p1 ''CodeBuildCallback'' JNull) = truthy (dict_get p2 ''CodeBuildCallback'' JNull)"
    and "truthy (dict_get p1 ''BuildOnDelete'' JNull) = truthy (dict_get p2 ''BuildOnDelete'' JNull)"
  shows "handle_delete env e1 = handle_delete env e2"
  using assms
  by (simp add: handle_delete_def dict_get_present dict_item_cong [of p1 _ p2]
      dict_item_cong [of e1 _ e2] truthy_default_False handler_simps Let_def
      cong: if_cong split: sum.split)

lemma update_cong:
  assumes "get_cfn_env_var_overrides (dumps env) e1 = get_cfn_env_var_overrides (dumps env) e2"
    and "map_of e1 ''ResourceProperties'' = Some (JObj p1)"
    and "map_of e2 ''ResourceProperties'' = Some (JObj p2)"
    and "map_of e1 ''PhysicalResourceId'' = map_of e2 ''PhysicalResourceId''"
    and "map_of p1 ''ProjectName'' = map_of p2 ''ProjectName''"
    and "truthy (dict_get p1 ''CodeBuildCalback'' JNull) = truthy (dict_get p2 ''CodeBuildCalback'' JNull)"
    and "truthy (dict_get p1 ''IgnoreUpdate'' JNull) = truthy (dict_get p2 ''IgnoreUpdate'' JNull)"
  shows "handle_update env e1 = handle_update env e2"
  using assms
  by (simp add: handle_update_def dict_get_present dict_item_cong [of p1 _ p2]
      dict_item_cong [of e1 _ e2] truthy_default_False handler_simps Let_def
      cong: if_cong split: sum.split)

lemma lambda_handler_cong:
  assumes "map_of e1 ''RequestType'' = map_of e2 ''RequestType''"
    and "handle_create env e1 = handle_create env e2"
    and "handle_update env e1 = handle_update env e2"
    and "handle_delete env e1 = handle_delete env e2"
  shows "lambda_handler env e1 = lambda_handler env e2"
  using assms by (simp add: lambda_handler_def try_body_def dict_item_cong [of e1 _ e2]
      cong: if_cong)

lemma set_property_present:
  "map_of event ''ResourceProperties'' = Some (JObj props) \<Longrightarrow>
     set_property event k v = (''ResourceProperties'', JObj ((k, v) # props)) # event"
  by (simp add: set_property_def resource_config_def dict_get_present)

lemma set_property_same:
  assumes k: "k \<in> {''BuildOnDelete'', ''CodeBuildCallback'', ''IgnoreUpdate''}"
    and rp: "map_of event ''ResourceProperties'' = Some (JObj props)"
    and t: "truthy (dict_get props k JNull) = truthy v"
  shows "lambda_handler env event = lambda_handler env (set_property event k v)"
proof -
  let ?e2 = "(''ResourceProperties'', JObj ((k, v) # props)) # event"
  have rp2: "map_of ?e2 ''ResourceProperties'' = Some (JObj ((k, v) # props))"
    by simp
  have tr: "truthy (dict_get props k' JNull) = truthy (dict_get ((k, v) # props) k' JNull)" for k'
    using t by (simp add: dict_get_def)
  have pn: "map_of props ''ProjectName'' = map_of ((k, v) # props) ''ProjectName''"
    and ne: "map_of props ''NoEcho'' = map_of ((k, v) # props) ''NoEcho''"
    using k by auto
  have ov: "get_cfn_env_var_overrides d event = get_cfn_env_var_overrides d ?e2" for d
    by (rule overrides_cong [OF _ _ _ _ _ rp rp2 ne tr]) simp_all
  have "lambda_handler env event = lambda_handler env ?e2"
  proof (rule lambda_handler_cong)
    show "map_of event ''RequestType'' = map_of ?e2 ''RequestType''" by simp
    show "handle_create env event = handle_create env ?e2"
      by (rule create_cong [OF ov rp rp2 pn tr])
    show "handle_update env event = handle_update env ?e2"
      by (rule update_cong [OF ov rp rp2 _ pn tr tr]) simp
    show "handle_delete env event = handle_delete env ?e2"
      by (rule delete_cong [OF ov rp rp2 _ pn tr tr]) simp
  qed
  then show ?thesis
    using rp by (simp add: set_property_present)
qed

text \<open>
  C10. Let \<open>k\<close> be one of \<^verbatim>\<open>BuildOnDelete\<close>, \<^verbatim>\<open>CodeBuildCallback\<close>,
  \<^verbatim>\<open>IgnoreUpdate\<close>, in an event whose resource properties are a dict. If the value of
  \<open>k\<close> is any non-empty string (\<^verbatim>\<open>"false"\<close> too), the handler does exactly what it does
  with \<open>k\<close> set to \<^verbatim>\<open>True\<close>; if \<open>k\<close> is absent, the empty string, \<^verbatim>\<open>0\<close> or
  \<^verbatim>\<open>False\<close>, exactly what it does with \<open>k\<close> set to \<^verbatim>\<open>False\<close>.
\<close>

theorem flags_read_by_truthiness:
  assumes "k \<in> {''BuildOnDelete'', ''CodeBuildCallback'', ''IgnoreUpdate''}"
    and "map_of event ''ResourceProperties'' = Some (JObj props)"
  shows "(\<forall>s. s \<noteq> [] \<and> map_of props k = Some (JStr s) \<longrightarrow>
            lambda_handler env event = lambda_handler env (set_property event k (JBool True)))
       \<and> (map_of props k \<in> {None, Some (JStr []), Some (JInt 0), Some (JBool False)} \<longrightarrow>
            lambda_handler env event = lambda_handler env (set_property event k (JBool False)))"
proof (intro conjI allI impI)
  fix s
  assume "s \<noteq> [] \<and> map_of props k = Some (JStr s)"
  then have "truthy (dict_get props k JNull) = truthy (JBool True)"
    by (simp add: dict_get_def)
  then show "lambda_handler env event = lambda_handler env (set_property event k (JBool True))"
    by (rule set_property_same [OF assms])
next
  assume "map_of props k \<in> {None, Some (JStr []), Some (JInt 0), Some (JBool False)}"
  then have "truthy (dict_get props k JNull) = truthy (JBool False)"
    by (auto simp: dict_get_def)
  then show "lambda_handler env event = lambda_handler env (set_property event k (JBool False))"
    by (rule set_property_same [OF assms])
qed

theorem flags_read_by_truthiness_witness:
  "lambda_handler example_env
     ((''PhysicalResourceId'', JStr ''X'') #
      example_event ''Update'' [(''ProjectName'', JStr ''p1''), (''IgnoreUpdate'', JStr ''false'')])
   = lambda_handler example_env
       (set_property
          ((''PhysicalResourceId'', JStr ''X'') #
           example_event ''Update'' [(''ProjectName'', JStr ''p1''), (''IgnoreUpdate'', JStr ''false'')])
          ''IgnoreUpdate'' (JBool True))
   \<and> lambda_handler example_env
       (set_property
          ((''PhysicalResourceId'', JStr ''X'') #
           example_event ''Update'' [(''ProjectName'', JStr ''p1''), (''IgnoreUpdate'', JStr ''false'')])
          ''IgnoreUpdate'' (JBool True))
     = ([Send \<lparr>status = SUCCESS, responseData = reason_data ''Update is a no-op'',
               physicalResourceId = Some (JStr ''X'')\<rparr>], None)
   \<and> lambda_handler example_env
     ((''PhysicalResourceId'', JStr ''X'') #
      example_event ''Delete'' [(''ProjectName'', JStr ''p1''), (''BuildOnDelete'', JInt 0)])
   = lambda_handler example_env
       (set_property
          ((''PhysicalResourceId'', JStr ''X'') #
           example_event ''Delete'' [(''ProjectName'', JStr ''p1''), (''BuildOnDelete'', JInt 0)])
          ''BuildOnDelete'' (JBool False))"
proof -
  have "lambda_handler example_env
       (set_property
          ((''PhysicalResourceId'', JStr ''X'') #
           example_event ''Update'' [(''ProjectName'', JStr ''p1''), (''IgnoreUpdate'', JStr ''false'')])
          ''IgnoreUpdate'' (JBool True))
     = ([Send \<lparr>status = SUCCESS, responseData = reason_data ''Update is a no-op'',
               physicalResourceId = Some (JStr ''X'')\<rparr>], None)"
    by (simp add: example_defs set_property_def resource_config_def lambda_handler_def
        try_body_def handle_update_def handler_simps dict_item_def dict_get_def send_def)
  then show ?thesis
    using flags_read_by_truthiness
      [of "''IgnoreUpdate''"
          "(''PhysicalResourceId'', JStr ''X'') #
           example_event ''Update'' [(''ProjectName'', JStr ''p1''), (''IgnoreUpdate'', JStr ''false'')]"
          "[(''ProjectName'', JStr ''p1''), (''IgnoreUpdate'', JStr ''false'')]" example_env]
      flags_read_by_truthiness
      [of "''BuildOnDelete''"
          "(''PhysicalResourceId'', JStr ''X'') #
           example_event ''Delete'' [(''ProjectName'', JStr ''p1''), (''BuildOnDelete'', JInt 0)]"
          "[(''ProjectName'', JStr ''p1''), (''BuildOnDelete'', JInt 0)]" example_env]
    by (simp add: example_event_def)
qed

end
